theory Spec2Isabelle
  imports Complex_Main
begin

section \<open>Crochet-pattern pipeline of \<^verbatim>\<open>mat_display.py\<close>\<close>

text \<open>
  The module turns a mesh (vertex positions, faces) and a per-vertex scalar field of
  geodesic distances into isoline rows (\<^verbatim>\<open>find_row_order\<close>), per-vertex gradients
  (\<^verbatim>\<open>compute_gradient\<close>), a column potential (\<^verbatim>\<open>find_column_order\<close>) and a stitch
  graph (\<^verbatim>\<open>generate_crochet_pattern\<close>).

  Conventions of the embedding:
  \<^item> a NumPy array of floats is a list of \<open>real\<close>; arithmetic is exact, so rounding,
    infinities and NaN are outside the model;
  \<^item> a two-dimensional array is a list of rows (\<open>vec list\<close>);
  \<^item> indices produced by \<^verbatim>\<open>enumerate\<close>, \<^verbatim>\<open>argmin\<close> and \<^verbatim>\<open>where\<close> are never
    negative and are \<open>nat\<close>;
  \<^item> every exception is a value \<open>Inl e\<close> of the result type \<open>py_error + 'a\<close>.
\<close>

subsection \<open>Data model\<close>

type_synonym vec = "real list"

datatype py_error = ValueError | IndexError | ArangeError

record stitch =
  vertex_index :: nat
  position :: vec
  distance :: real

record pattern =
  seed_vertex :: nat
  row_edges :: "(nat \<times> nat) list"
  col_edges :: "(nat \<times> nat) list"
  stitches :: "stitch list"

record row_entry =
  vert_index :: nat
  raw_distance :: real
  reg_distance :: real

subsection \<open>NumPy reductions used by the module\<close>

text \<open>
  \<^verbatim>\<open>np.argmin\<close> scans the array once and keeps the first index at which the smallest
  value so far was seen (a later equal value does not replace it); on an empty array it
  raises \<^verbatim>\<open>ValueError\<close>. \<^verbatim>\<open>np.argmax\<close> and \<^verbatim>\<open>np.max\<close> are the same scan.
\<close>

fun argmin_scan :: "real list \<Rightarrow> nat \<Rightarrow> nat \<Rightarrow> real \<Rightarrow> nat" where
  "argmin_scan [] i best m = best"
| "argmin_scan (d # ds) i best m =
     (if d < m then argmin_scan ds (Suc i) i d else argmin_scan ds (Suc i) best m)"

definition np_argmin :: "real list \<Rightarrow> py_error + nat" where
  "np_argmin ds = (case ds of [] \<Rightarrow> Inl ValueError | d # rest \<Rightarrow> Inr (argmin_scan rest 1 0 d))"

fun argmax_scan :: "real list \<Rightarrow> nat \<Rightarrow> nat \<Rightarrow> real \<Rightarrow> nat" where
  "argmax_scan [] i best m = best"
| "argmax_scan (d # ds) i best m =
     (if m < d then argmax_scan ds (Suc i) i d else argmax_scan ds (Suc i) best m)"

definition np_argmax :: "real list \<Rightarrow> py_error + nat" where
  "np_argmax ds = (case ds of [] \<Rightarrow> Inl ValueError | d # rest \<Rightarrow> Inr (argmax_scan rest 1 0 d))"

definition np_max :: "real list \<Rightarrow> py_error + real" where
  "np_max ds = (case ds of [] \<Rightarrow> Inl ValueError | d # rest \<Rightarrow> Inr (fold max rest d))"

subsection \<open>\<^verbatim>\<open>generate_crochet_pattern\<close>\<close>

text \<open>
  The first loop walks \<^verbatim>\<open>enumerate(vertices)\<close> with the two lists it appends to.
  \<^verbatim>\<open>distances[i]\<close> raises \<^verbatim>\<open>IndexError\<close> when the field is shorter than the vertex
  array.
\<close>

fun stitch_loop ::
  "(nat \<times> vec) list \<Rightarrow> real list \<Rightarrow> (nat \<times> nat) list \<Rightarrow> stitch list
     \<Rightarrow> py_error + ((nat \<times> nat) list \<times> stitch list)" where
  "stitch_loop [] distances r_edges instructions = Inr (r_edges, instructions)"
| "stitch_loop ((i, vertex) # rest) distances r_edges instructions =
     (if i < length distances then
        (let stitch = \<lparr>vertex_index = i, position = vertex, distance = distances ! i\<rparr>;
             r_edges' = (if i > 0 then r_edges @ [(i - 1, i)] else r_edges)
         in stitch_loop rest distances r_edges' (instructions @ [stitch]))
      else Inl IndexError)"

text \<open>
  The second loop pairs \<^verbatim>\<open>row_edges[:-1]\<close> with \<^verbatim>\<open>row_edges[1:]\<close> and joins the
  second endpoint of the earlier edge to the first endpoint of the later one.
\<close>

definition form_columns :: "(nat \<times> nat) list \<Rightarrow> (nat \<times> nat) list" where
  "form_columns r_edges =
     map (\<lambda>(start, end). (snd start, fst end)) (zip (butlast r_edges) (tl r_edges))"

definition generate_crochet_pattern ::
  "vec list \<Rightarrow> 'faces \<Rightarrow> real list \<Rightarrow> py_error + pattern" where
  "generate_crochet_pattern vertices faces distances =
     (case np_argmin distances of
        Inl e \<Rightarrow> Inl e
      | Inr seed \<Rightarrow>
          (case np_argmax distances of
             Inl e \<Rightarrow> Inl e
           | Inr max_vertex \<Rightarrow>
               (case stitch_loop (enumerate 0 vertices) distances [] [] of
                  Inl e \<Rightarrow> Inl e
                | Inr (r_edges, instructions) \<Rightarrow>
                    Inr \<lparr>seed_vertex = seed,
                         row_edges = r_edges,
                         col_edges = form_columns r_edges,
                         stitches = instructions\<rparr>)))"

subsection \<open>\<^verbatim>\<open>find_row_order\<close>\<close>

text \<open>
  \<^verbatim>\<open>np.arange(start, stop, step)\<close> has \<open>\<lceil>(stop - start) / step\<rceil>\<close> elements (none when
  that number is not positive), the \<open>k\<close>-th being \<open>start + k * step\<close>. With a zero step
  no length can be computed and NumPy raises (a \<^verbatim>\<open>ZeroDivisionError\<close>, \<^verbatim>\<open>ValueError\<close> or
  \<^verbatim>\<open>OverflowError\<close>, depending on the operand types); the model has one error value,
  \<open>ArangeError\<close>, for it.
\<close>

definition np_arange :: "real \<Rightarrow> real \<Rightarrow> real \<Rightarrow> py_error + real list" where
  "np_arange start stop step =
     (if step = 0 then Inl ArangeError
      else Inr (map (\<lambda>k. start + real k * step) [0 ..< nat \<lceil>(stop - start) / step\<rceil>]))"

text \<open>
  Indexing an array with a boolean mask keeps the rows whose mask entry is true; a mask
  of another length raises \<^verbatim>\<open>IndexError\<close>.
\<close>

definition boolean_index :: "'a list \<Rightarrow> bool list \<Rightarrow> py_error + 'a list" where
  "boolean_index xs selector =
     (if length selector = length xs then Inr (map fst (filter snd (zip xs selector)))
      else Inl IndexError)"

text \<open>The list comprehension that builds one row: a filter over \<^verbatim>\<open>enumerate(vertices)\<close>.\<close>

fun close_entries ::
  "(nat \<times> vec) list \<Rightarrow> real list \<Rightarrow> real \<Rightarrow> real \<Rightarrow> py_error + row_entry list" where
  "close_entries [] distances isoline_value w = Inr []"
| "close_entries ((i, vertex) # rest) distances isoline_value w =
     (if i < length distances then
        (if \<bar>distances ! i - isoline_value\<bar> < w / 2 then
           (case close_entries rest distances isoline_value w of
              Inl e \<Rightarrow> Inl e
            | Inr row \<Rightarrow>
                Inr (\<lparr>vert_index = i, raw_distance = distances ! i,
                      reg_distance = isoline_value\<rparr> # row))
         else close_entries rest distances isoline_value w)
      else Inl IndexError)"

fun row_loop ::
  "real list \<Rightarrow> vec list \<Rightarrow> real list \<Rightarrow> real \<Rightarrow> row_entry list list
     \<Rightarrow> py_error + row_entry list list" where
  "row_loop [] vertices distances w row_order = Inr row_order"
| "row_loop (isoline_value # rest) vertices distances w row_order =
     (case boolean_index vertices (map (\<lambda>d. \<bar>d - isoline_value\<bar> < w / 2) distances) of
        Inl e \<Rightarrow> Inl e
      | Inr close_vertices \<Rightarrow>
          (case close_entries (enumerate 0 vertices) distances isoline_value w of
             Inl e \<Rightarrow> Inl e
           | Inr row \<Rightarrow> row_loop rest vertices distances w (row_order @ [row])))"

definition find_row_order ::
  "vec list \<Rightarrow> 'faces \<Rightarrow> real list \<Rightarrow> real \<Rightarrow> py_error + row_entry list list" where
  "find_row_order vertices faces distances w =
     (case np_max distances of
        Inl e \<Rightarrow> Inl e
      | Inr max_distance \<Rightarrow>
          (case np_arange 0 max_distance w of
             Inl e \<Rightarrow> Inl e
           | Inr isoline_values \<Rightarrow> row_loop isoline_values vertices distances w []))"

subsection \<open>\<^verbatim>\<open>compute_gradient\<close>\<close>

definition vsub :: "vec \<Rightarrow> vec \<Rightarrow> vec" where
  "vsub a b = map2 (-) a b"

text \<open>\<^verbatim>\<open>np.linalg.norm(..., axis=1)\<close> of one row: the Euclidean length.\<close>

definition row_norm :: "vec \<Rightarrow> real" where
  "row_norm v = sqrt (sum_list (map (\<lambda>c. c * c) v))"

text \<open>
  \<^verbatim>\<open>np.where(np.linalg.norm(vertices - v, axis=1) < 1e-5)[0]\<close>: the indices, in increasing
  order, of the rows closer to \<open>v\<close> than the epsilon, which is the real number \<open>1/100000\<close>
  here. The array is rectangular, so every row has as many coordinates as \<open>v\<close>.
\<close>

definition neighbors_of :: "vec list \<Rightarrow> vec \<Rightarrow> nat list" where
  "neighbors_of vertices v =
     filter (\<lambda>j. row_norm (vsub (vertices ! j) v) < 1 / 100000) [0 ..< length vertices]"

text \<open>Indexing with an index array; an index beyond the end raises \<^verbatim>\<open>IndexError\<close>.\<close>

definition take_indices :: "'a list \<Rightarrow> nat list \<Rightarrow> py_error + 'a list" where
  "take_indices xs idx =
     (if list_all (\<lambda>j. j < length xs) idx then Inr (map (\<lambda>j. xs ! j) idx)
      else Inl IndexError)"

text \<open>\<^verbatim>\<open>np.mean(rows, axis=0)\<close> of an array with \<open>d\<close> columns.\<close>

definition mean_axis0 :: "nat \<Rightarrow> vec list \<Rightarrow> vec" where
  "mean_axis0 d rows =
     map (\<lambda>c. sum_list (map (\<lambda>r. r ! c) rows) / real (length rows)) [0 ..< d]"

fun gradient_loop ::
  "(nat \<times> vec) list \<Rightarrow> vec list \<Rightarrow> real list \<Rightarrow> vec list \<Rightarrow> py_error + vec list" where
  "gradient_loop [] vertices values gradients = Inr gradients"
| "gradient_loop ((i, v) # rest) vertices values gradients =
     (let neighbors = neighbors_of vertices v in
      if length neighbors > 1 then
        (let deltas = map (\<lambda>j. vsub (vertices ! j) v) neighbors in
         case take_indices values neighbors of
           Inl e \<Rightarrow> Inl e
         | Inr neighbor_values \<Rightarrow>
             if i < length values then
               (let value_deltas = map (\<lambda>u. u - values ! i) neighbor_values;
                    weighted = map2 (\<lambda>vd delta. map (\<lambda>c. vd * c) delta) value_deltas deltas
                in gradient_loop rest vertices values
                     (gradients[i := mean_axis0 (length v) weighted]))
             else Inl IndexError)
      else gradient_loop rest vertices values gradients)"

definition compute_gradient :: "vec list \<Rightarrow> real list \<Rightarrow> py_error + vec list" where
  "compute_gradient vertices values =
     gradient_loop (enumerate 0 vertices) vertices values
       (map (\<lambda>v. map (\<lambda>c. 0) v) vertices)"


subsection \<open>\<^verbatim>\<open>rotated_gradient\<close>, \<^verbatim>\<open>objective\<close> and \<^verbatim>\<open>find_column_order\<close>\<close>









section \<open>Properties of the stitch graph\<close>

subsection \<open>What the two loops of \<^verbatim>\<open>generate_crochet_pattern\<close> compute\<close>

lemma stitch_loop_enumerate:
  "k + length xs \<le> length ds \<Longrightarrow>
   stitch_loop (enumerate k xs) ds re ins =
     Inr (re @ map (\<lambda>i. (i - 1, i)) [max 1 k ..< k + length xs],
          ins @ map (\<lambda>(i, v). \<lparr>vertex_index = i, position = v, distance = ds ! i\<rparr>)
                  (enumerate k xs))"
proof (induction xs arbitrary: k re ins)
  case Nil
  then show ?case by simp
next
  case (Cons x xs)
  have len: "Suc k + length xs \<le> length ds" and k: "k < length ds"
    using Cons.prems by simp_all
  show ?case
  proof (cases "k = 0")
    case True
    then show ?thesis using k Cons.IH [OF len] by simp
  next
    case False
    then have mk: "max 1 k = k" "max 1 (Suc k) = Suc k" by simp_all
    have "[k ..< k + length (x # xs)] = k # [Suc k ..< Suc k + length xs]"
      using upt_conv_Cons [of k "k + length (x # xs)"] by simp
    with mk have "[max 1 k ..< k + length (x # xs)] = k # [max 1 (Suc k) ..< Suc k + length xs]"
      by simp
    then show ?thesis using k False Cons.IH [OF len] by simp
  qed
qed

lemma form_columns_consecutive:
  "form_columns (map (\<lambda>i. (i - 1, i)) [1 ..< n]) = map (\<lambda>i. (i, i)) [1 ..< n - 1]"
  unfolding form_columns_def
  by (rule nth_equalityI) (auto simp: nth_butlast nth_tl)

text \<open>
  The scan invariant of \<^verbatim>\<open>argmin\<close>: \<open>pre\<close> is the part already seen, \<open>best\<close> the first
  index in it that holds its least value \<open>m\<close>.
\<close>

lemma argmin_scan_first_min:
  assumes "length pre = i" "best < i" "pre ! best = m" "\<forall>j < i. m \<le> pre ! j"
      "\<forall>j < best. m < pre ! j"
  shows "argmin_scan ds i best m < length (pre @ ds) \<and>
         (\<forall>j < length (pre @ ds). (pre @ ds) ! argmin_scan ds i best m \<le> (pre @ ds) ! j) \<and>
         (\<forall>j < argmin_scan ds i best m. (pre @ ds) ! argmin_scan ds i best m < (pre @ ds) ! j)"
  using assms
proof (induction ds arbitrary: pre i best m)
  case Nil
  then show ?case by auto
next
  case (Cons d ds)
  let ?pre = "pre @ [d]"
  show ?case
  proof (cases "d < m")
    case True
    have "argmin_scan ds (Suc i) i d < length (?pre @ ds) \<and>
         (\<forall>j < length (?pre @ ds). (?pre @ ds) ! argmin_scan ds (Suc i) i d \<le> (?pre @ ds) ! j) \<and>
         (\<forall>j < argmin_scan ds (Suc i) i d. (?pre @ ds) ! argmin_scan ds (Suc i) i d < (?pre @ ds) ! j)"
    proof (rule Cons.IH)
      show "length ?pre = Suc i" using Cons.prems by simp
      show "i < Suc i" by simp
      show "?pre ! i = d" using Cons.prems by (simp add: nth_append)
      show "\<forall>j<Suc i. d \<le> ?pre ! j"
        using Cons.prems True by (auto simp: nth_append less_Suc_eq)
      show "\<forall>j<i. d < ?pre ! j"
        using Cons.prems True by (auto simp: nth_append)
    qed
    then show ?thesis using True by simp
  next
    case False
    have "argmin_scan ds (Suc i) best m < length (?pre @ ds) \<and>
         (\<forall>j < length (?pre @ ds). (?pre @ ds) ! argmin_scan ds (Suc i) best m \<le> (?pre @ ds) ! j) \<and>
         (\<forall>j < argmin_scan ds (Suc i) best m. (?pre @ ds) ! argmin_scan ds (Suc i) best m < (?pre @ ds) ! j)"
    proof (rule Cons.IH)
      show "length ?pre = Suc i" using Cons.prems by simp
      show "best < Suc i" using Cons.prems by simp
      show "?pre ! best = m" using Cons.prems by (simp add: nth_append)
      show "\<forall>j<Suc i. m \<le> ?pre ! j"
        using Cons.prems False by (auto simp: nth_append less_Suc_eq)
      show "\<forall>j<best. m < ?pre ! j"
        using Cons.prems by (auto simp: nth_append)
    qed
    then show ?thesis using False by simp
  qed
qed

lemma np_argmin_first_min:
  assumes "ds \<noteq> []"
  shows "\<exists>s. np_argmin ds = Inr s \<and> s < length ds \<and> ds ! s = Min (set ds) \<and>
             (\<forall>j < s. ds ! s < ds ! j)"
proof -
  from assms obtain d rest where ds: "ds = d # rest" by (cases ds) auto
  let ?s = "argmin_scan rest 1 0 d"
  have inv: "?s < length ([d] @ rest) \<and>
         (\<forall>j < length ([d] @ rest). ([d] @ rest) ! ?s \<le> ([d] @ rest) ! j) \<and>
         (\<forall>j < ?s. ([d] @ rest) ! ?s < ([d] @ rest) ! j)"
    by (rule argmin_scan_first_min) simp_all
  then have s: "?s < length ds" and le: "\<forall>j < length ds. ds ! ?s \<le> ds ! j"
    and lt: "\<forall>j < ?s. ds ! ?s < ds ! j"
    by (simp_all add: ds)
  have "Min (set ds) = ds ! ?s"
  proof (rule Min_eqI)
    show "finite (set ds)" by simp
    show "ds ! ?s \<in> set ds" using s by simp
    fix y assume "y \<in> set ds"
    then obtain j where "j < length ds" "ds ! j = y" by (auto simp: in_set_conv_nth)
    with le show "ds ! ?s \<le> y" by auto
  qed
  moreover have "np_argmin ds = Inr ?s" by (simp add: np_argmin_def ds)
  ultimately show ?thesis using s lt by auto
qed

lemma np_argmax_returns: "ds \<noteq> [] \<Longrightarrow> \<exists>t. np_argmax ds = Inr t"
  by (cases ds) (simp_all add: np_argmax_def)

lemma generate_crochet_pattern_returns:
  assumes "distances \<noteq> []" "length vertices \<le> length distances"
  shows "\<exists>s. np_argmin distances = Inr s \<and>
     generate_crochet_pattern vertices faces distances =
       Inr \<lparr>seed_vertex = s,
            row_edges = map (\<lambda>i. (i - 1, i)) [1 ..< length vertices],
            col_edges = map (\<lambda>i. (i, i)) [1 ..< length vertices - 1],
            stitches = map (\<lambda>(i, v). \<lparr>vertex_index = i, position = v, distance = distances ! i\<rparr>)
                         (enumerate 0 vertices)\<rparr>"
proof -
  obtain s where s: "np_argmin distances = Inr s"
    using np_argmin_first_min [OF assms(1)] by blast
  obtain t where t: "np_argmax distances = Inr t"
    using np_argmax_returns [OF assms(1)] by blast
  have loop: "stitch_loop (enumerate 0 vertices) distances [] [] =
     Inr (map (\<lambda>i. (i - 1, i)) [1 ..< length vertices],
          map (\<lambda>(i, v). \<lparr>vertex_index = i, position = v, distance = distances ! i\<rparr>)
            (enumerate 0 vertices))"
    using stitch_loop_enumerate [of 0 vertices distances "[]" "[]"] assms(2) by simp
  show ?thesis
    using form_columns_consecutive [of "length vertices"]
    by (simp add: generate_crochet_pattern_def s t loop)
qed

subsection \<open>Edge counts\<close>

text \<open>
  Claim C1. For a mesh of \<open>N \<ge> 2\<close> vertices and a field of the same length,
  \<^verbatim>\<open>generate_crochet_pattern\<close> returns a pattern with exactly \<open>N\<close> stitches, \<open>N - 1\<close> row
  edges and \<open>N - 2\<close> column edges; so there is one row edge less than stitches and one
  column edge less than row edges.
\<close>

theorem generate_crochet_pattern_counts:
  assumes "2 \<le> length vertices" "length distances = length vertices"
  shows "\<exists>p. generate_crochet_pattern vertices faces distances = Inr p \<and>
     length (stitches p) = length vertices \<and>
     length (row_edges p) = length vertices - 1 \<and>
     length (col_edges p) = length vertices - 2 \<and>
     length (row_edges p) + 1 = length (stitches p) \<and>
     length (col_edges p) + 1 = length (row_edges p)"
proof -
  have "distances \<noteq> []" "length vertices \<le> length distances"
    using assms by auto
  from generate_crochet_pattern_returns [OF this, of faces] obtain p
    where gp: "generate_crochet_pattern vertices faces distances = Inr p"
      and re: "row_edges p = map (\<lambda>i. (i - 1, i)) [1 ..< length vertices]"
      and ce: "col_edges p = map (\<lambda>i. (i, i)) [1 ..< length vertices - 1]"
      and st: "stitches p = map (\<lambda>(i, v). \<lparr>vertex_index = i, position = v, distance = distances ! i\<rparr>)
                         (enumerate 0 vertices)"
    by force
  have ls: "length (stitches p) = length vertices" by (simp add: st)
  have lr: "length (row_edges p) = length vertices - 1" by (simp add: re)
  have lc: "length (col_edges p) = length vertices - 2" unfolding ce by simp
  have "length (row_edges p) + 1 = length (stitches p)"
    "length (col_edges p) + 1 = length (row_edges p)"
    unfolding ls lr lc using assms(1) by arith+
  with gp ls lr lc show ?thesis by blast
qed

theorem generate_crochet_pattern_counts_witness:
  "2 \<le> length [[0, 0, 0], [1, 0, 0], [0, 1, 0 :: real]] \<and>
   length [0, 1, 1 :: real] = length [[0, 0, 0], [1, 0, 0], [0, 1, 0 :: real]] \<and>
   (\<exists>p. generate_crochet_pattern [[0, 0, 0], [1, 0, 0], [0, 1, 0]] () [0, 1, 1] = Inr p \<and>
     length (stitches p) = 3 \<and> length (row_edges p) = 2 \<and> length (col_edges p) = 1)"
  using generate_crochet_pattern_counts [of "[[0, 0, 0], [1, 0, 0], [0, 1, 0]]" "[0, 1, 1]" "()"]
  by (auto simp: eval_nat_numeral)

subsection \<open>The seed vertex\<close>

text \<open>
  Claim C2. For a non-empty field (long enough for the loop over the vertices not to
  fail), the \<^verbatim>\<open>seed_vertex\<close> of the returned pattern is an index of the least field value,
  and the lowest such index: every earlier entry is strictly larger.
\<close>

theorem seed_vertex_first_argmin:
  assumes "distances \<noteq> []" "length vertices \<le> length distances"
  shows "\<exists>p. generate_crochet_pattern vertices faces distances = Inr p \<and>
     seed_vertex p < length distances \<and>
     distances ! seed_vertex p = Min (set distances) \<and>
     (\<forall>j < seed_vertex p. distances ! seed_vertex p < distances ! j)"
proof -
  from generate_crochet_pattern_returns [OF assms, of faces] obtain s p
    where s: "np_argmin distances = Inr s"
      and p: "generate_crochet_pattern vertices faces distances = Inr p"
      and seed: "seed_vertex p = s"
    by force
  from np_argmin_first_min [OF assms(1)] s
  have "s < length distances \<and> distances ! s = Min (set distances) \<and>
        (\<forall>j < s. distances ! s < distances ! j)"
    by auto
  with p seed show ?thesis by auto
qed

theorem seed_vertex_first_argmin_witness:
  "[3, 1, 2, 1 :: real] \<noteq> [] \<and>
   length [[0, 0, 0], [1, 0, 0], [0, 1, 0], [1, 1, 0 :: real]] \<le> length [3, 1, 2, 1 :: real] \<and>
   (\<exists>p. generate_crochet_pattern [[0, 0, 0], [1, 0, 0], [0, 1, 0], [1, 1, 0]] () [3, 1, 2, 1] = Inr p \<and>
     seed_vertex p < 4 \<and> [3, 1, 2, 1] ! seed_vertex p = Min (set [3, 1, 2, 1 :: real]))"
  using seed_vertex_first_argmin [of "[3, 1, 2, 1]" "[[0, 0, 0], [1, 0, 0], [0, 1, 0], [1, 1, 0]]" "()"]
  by (auto simp: eval_nat_numeral)

subsection \<open>Column edges are self-loops\<close>

text \<open>
  Claim C9. For a mesh of \<open>N \<ge> 3\<close> vertices the row edges are \<open>(0,1), (1,2), \<dots>\<close>, so the
  second endpoint of one is the first endpoint of the next, and the column edges are
  exactly \<open>(1,1), (2,2), \<dots>, (N-2,N-2)\<close>: every column edge joins a vertex to itself.
\<close>

theorem col_edges_self_loops:
  assumes "3 \<le> length vertices" "length vertices \<le> length distances"
  shows "\<exists>p. generate_crochet_pattern vertices faces distances = Inr p \<and>
     row_edges p = map (\<lambda>i. (i - 1, i)) [1 ..< length vertices] \<and>
     col_edges p = map (\<lambda>i. (i, i)) [1 ..< length vertices - 1] \<and>
     col_edges p \<noteq> [] \<and>
     (\<forall>(a, b) \<in> set (col_edges p). a = b)"
proof -
  have "distances \<noteq> []" using assms by auto
  from generate_crochet_pattern_returns [OF this assms(2), of faces] obtain p
    where "generate_crochet_pattern vertices faces distances = Inr p"
      and "row_edges p = map (\<lambda>i. (i - 1, i)) [1 ..< length vertices]"
      and "col_edges p = map (\<lambda>i. (i, i)) [1 ..< length vertices - 1]"
    by force
  then show ?thesis using assms(1) by (intro exI [of _ p]) auto
qed

theorem col_edges_self_loops_witness:
  "3 \<le> length [[0, 0, 0], [1, 0, 0], [0, 1, 0], [1, 1, 0 :: real]] \<and>
   length [[0, 0, 0], [1, 0, 0], [0, 1, 0], [1, 1, 0 :: real]] \<le> length [0, 1, 1, 2 :: real] \<and>
   (\<exists>p. generate_crochet_pattern [[0, 0, 0], [1, 0, 0], [0, 1, 0], [1, 1, 0]] () [0, 1, 1, 2] = Inr p \<and>
     row_edges p = [(0, 1), (1, 2), (2, 3)] \<and> col_edges p = [(1, 1), (2, 2)])"
  using col_edges_self_loops [of "[[0, 0, 0], [1, 0, 0], [0, 1, 0], [1, 1, 0]]" "[0, 1, 1, 2]" "()"]
  by (auto simp: upt_conv_Cons eval_nat_numeral)

subsection \<open>The faces are never read\<close>

text \<open>
  Claim C10. Neither \<^verbatim>\<open>generate_crochet_pattern\<close> nor \<^verbatim>\<open>find_row_order\<close> depends on its
  \<^verbatim>\<open>faces\<close> argument: any two values for it (of any types) give the same result.
\<close>

theorem faces_argument_unused:
  "generate_crochet_pattern vertices faces1 distances =
     generate_crochet_pattern vertices faces2 distances \<and>
   find_row_order vertices faces1 distances w = find_row_order vertices faces2 distances w"
  by (simp add: generate_crochet_pattern_def find_row_order_def)

theorem faces_argument_unused_witness:
  "generate_crochet_pattern [[0, 0, 0], [1, 0, 0]] [(0 :: nat, 1 :: nat, 1 :: nat)] [0, 1] =
     generate_crochet_pattern [[0, 0, 0], [1, 0, 0]] ([] :: (nat \<times> nat \<times> nat) list) [0, 1] \<and>
   find_row_order [[0, 0, 0], [1, 0, 0]] [(0 :: nat, 1 :: nat, 1 :: nat)] [0, 1] (1 / 2) =
     find_row_order [[0, 0, 0], [1, 0, 0]] ([] :: (nat \<times> nat \<times> nat) list) [0, 1] (1 / 2)"
  using faces_argument_unused [of "[[0, 0, 0], [1, 0, 0]]" "[(0 :: nat, 1 :: nat, 1 :: nat)]" "[0, 1]"
      "[] :: (nat \<times> nat \<times> nat) list" "1 / 2"]
  by simp

section \<open>Properties of the isoline rows\<close>






subsection \<open>One row per isoline value\<close>



subsection \<open>The unit-square scenario\<close>

text \<open>
  Claim C5, as amended. On the flat unit square, four vertices at
  \<open>(0,0,0), (1,0,0), (0,1,0), (1,1,0)\<close> with field \<open>[0, 1, 1, 2]\<close> and \<open>w = 0.5\<close>, the
  largest field value is \<open>2\<close> and the isoline values are \<open>0, 0.5, 1, 1.5\<close> (all
  \<open>k * 0.5 < 2\<close>), not only \<open>0, 0.5\<close>. \<^verbatim>\<open>find_row_order\<close> returns four rows: vertex \<open>0\<close>
  alone for \<open>t = 0\<close>, no vertex for \<open>t = 0.5\<close>, vertices \<open>1\<close> and \<open>2\<close> for \<open>t = 1\<close>, no vertex
  for \<open>t = 1.5\<close>. \<^verbatim>\<open>generate_crochet_pattern\<close> gives \<open>seed_vertex = 0\<close>.
\<close>

theorem unit_square_scenario:
  "np_max [0, 1, 1, 2] = Inr 2 \<and>
   np_arange 0 2 (1 / 2) = Inr [0, 1 / 2, 1, 3 / 2] \<and>
   find_row_order [[0, 0, 0], [1, 0, 0], [0, 1, 0], [1, 1, 0]] faces [0, 1, 1, 2] (1 / 2) =
     Inr [[\<lparr>vert_index = 0, raw_distance = 0, reg_distance = 0\<rparr>],
          [],
          [\<lparr>vert_index = 1, raw_distance = 1, reg_distance = 1\<rparr>,
           \<lparr>vert_index = 2, raw_distance = 1, reg_distance = 1\<rparr>],
          []] \<and>
   (\<exists>p. generate_crochet_pattern [[0, 0, 0], [1, 0, 0], [0, 1, 0], [1, 1, 0]] faces [0, 1, 1, 2]
          = Inr p \<and> seed_vertex p = 0)"
  by (simp add: find_row_order_def np_max_def np_arange_def boolean_index_def
      generate_crochet_pattern_def np_argmin_def np_argmax_def
      enumerate_eq_zip upt_conv_Cons)

theorem unit_square_scenario_witness:
  "find_row_order [[0, 0, 0], [1, 0, 0], [0, 1, 0], [1, 1, 0]] [(0 :: nat, 1 :: nat, 2 :: nat), (1, 3, 2)]
     [0, 1, 1, 2] (1 / 2) =
     Inr [[\<lparr>vert_index = 0, raw_distance = 0, reg_distance = 0\<rparr>],
          [],
          [\<lparr>vert_index = 1, raw_distance = 1, reg_distance = 1\<rparr>,
           \<lparr>vert_index = 2, raw_distance = 1, reg_distance = 1\<rparr>],
          []]"
  using unit_square_scenario [of "[(0 :: nat, 1 :: nat, 2 :: nat), (1, 3, 2)]"] by simp

text \<open>
  The scenario as the claim words it (isoline values \<open>[0, 0.5]\<close>, hence two rows, the
  first holding vertex \<open>0\<close> and the second empty) is not what the function returns.
\<close>

theorem unit_square_scenario_counterexample:
  "np_arange 0 2 (1 / 2) \<noteq> Inr [0, 1 / 2] \<and>
   find_row_order [[0, 0, 0], [1, 0, 0], [0, 1, 0], [1, 1, 0]] () [0, 1, 1, 2] (1 / 2) \<noteq>
     Inr [[\<lparr>vert_index = 0, raw_distance = 0, reg_distance = 0\<rparr>], []]"
  by (simp add: find_row_order_def np_max_def np_arange_def boolean_index_def
      enumerate_eq_zip upt_conv_Cons)

subsection \<open>Which vertices land in a row\<close>




text \<open>
  The two other hypotheses are needed as well: a field value at or below \<open>- w/2\<close>, and one
  in the gap between the last isoline value plus \<open>w/2\<close> and the maximum, are in no row.
\<close>

lemma coverage_gap_below_zero:
  "(- 5 :: real) < Max (set [- 5, 1]) \<and>
   find_row_order [[0, 0, 0], [1, 0, 0]] () [- 5, 1] 1 = Inr [[]]"
  by (simp add: find_row_order_def np_max_def np_arange_def boolean_index_def
      enumerate_eq_zip upt_conv_Cons)

lemma coverage_gap_below_max:
  "(17 / 10 :: real) < Max (set [17 / 10, 2]) \<and>
   find_row_order [[0, 0, 0], [1, 0, 0]] () [17 / 10, 2] 1 = Inr [[], []]"
  by (simp add: find_row_order_def np_max_def np_arange_def boolean_index_def
      enumerate_eq_zip upt_conv_Cons)

subsection \<open>A spacing that is not positive\<close>




section \<open>Properties of the gradient estimate\<close>

text \<open>
  The comparison of a Euclidean length with the epsilon, without the square root: this is
  how a concrete neighbor test is evaluated.
\<close>

lemma row_norm_less_iff:
  assumes "0 < e"
  shows "row_norm v < e \<longleftrightarrow> sum_list (map (\<lambda>c. c * c) v) < e * e"
proof -
  have "sqrt (e * e) = e" using assms by simp
  then have "row_norm v < e \<longleftrightarrow> sqrt (sum_list (map (\<lambda>c. c * c) v)) < sqrt (e * e)"
    by (simp add: row_norm_def)
  then show ?thesis by (simp only: real_sqrt_less_iff)
qed

lemma row_norm_near:
  "row_norm v * 100000 < 1 \<longleftrightarrow> sum_list (map (\<lambda>c. c * c) v) * 10000000000 < 1"
  using row_norm_less_iff [of "1 / 100000" v] by simp










subsection \<open>The gradient is the mean of the weighted offsets\<close>


lemma compute_gradient_example:
  "compute_gradient [[0, 0, 0], [1 / 1000000, 0, 0], [1, 0, 0]] [0, 1, 2] =
     Inr [[1 / 2000000, 0, 0], [1 / 2000000, 0, 0], [0, 0, 0]]"
  by (simp add: compute_gradient_def enumerate_eq_zip upt_conv_Cons neighbors_of_def
      row_norm_near vsub_def take_indices_def mean_axis0_def Let_def)



section \<open>Properties of the column solve\<close>

subsection \<open>The solver's report is not looked at\<close>









end
